theory Spec2Isabelle
  imports Main
begin

section \<open>Data model of \<open>pkg/virtual/framework/internalapis/import.go\<close>\<close>

text \<open>
  The input of the generation pipeline is a list of \<open>InternalAPI\<close> values (the
  type descriptors). The three name fields the code reads are kept; a Go \<open>string\<close> is
  a byte sequence, here a \<open>string\<close>.
\<close>

record CustomResourceDefinitionNames =
  Plural :: string
  Singular :: string
  Kind :: string

record GroupVersion =
  Group :: string
  Version :: string

record GroupVersionKind =
  gvk_Group :: string
  gvk_Version :: string
  gvk_Kind :: string

datatype ResourceScope = ClusterScoped | NamespaceScoped

record 'obj InternalAPI =
  Names :: CustomResourceDefinitionNames
  GroupVersion :: GroupVersion
  Instance :: 'obj
  ResourceSope :: ResourceScope
  HasStatus :: bool

text \<open>
  The output: one \<open>APIResourceSchema\<close> per descriptor. \<open>Status\<close> is a pointer to an
  empty struct in the source, so it is an option: \<open>None\<close> is the nil pointer. The
  zero value \<open>runtime.RawExtension{}\<close> has no raw bytes.
\<close>

datatype CustomResourceSubresourceStatus = CustomResourceSubresourceStatus

record CustomResourceSubresources =
  Status :: "CustomResourceSubresourceStatus option"

record RawExtension =
  Raw :: string

record APIResourceVersion =
  Name :: string
  Served :: bool
  Storage :: bool
  Schema :: RawExtension
  Subresources :: CustomResourceSubresources

record ObjectMeta =
  meta_Name :: string

record APIResourceSchemaSpec =
  spec_Group :: string
  spec_Names :: CustomResourceDefinitionNames
  Scope :: ResourceScope
  Versions :: "APIResourceVersion list"

record APIResourceSchema =
  ObjectMeta :: ObjectMeta
  Spec :: APIResourceSchemaSpec

text \<open>
  The description document (\<open>*spec.Swagger\<close>): the code writes its
  \<open>Info.Version\<close> field and otherwise hands it on unread.
\<close>

record 'doc Swagger =
  Info_Version :: string
  Document :: 'doc

section \<open>The collaborators outside this file\<close>

text \<open>
  \<open>createAPIResourceSchemas\<close> calls library functions and the converter of
  \<open>pkg/crdpuller\<close>. They are parameters of the model, each with the shape of its call
  site. A call that returns \<open>(value, error)\<close> is a sum, \<open>Inl\<close> the non-nil error.
  \<open>crdpuller.Convert\<close> fills the \<open>JSONSchemaProps\<close> it is handed and returns a list of
  errors, so it returns both; its first argument is an interface value, \<open>None\<close> being
  the nil interface, which is also what indexing a Go map yields at a key it does not
  hold. The errors of that list are error values, none of them nil, and
  \<open>errors.NewAggregate\<close>, called on a non-empty list only, returns the error that the
  run then returns. \<open>Marshal\<close> is the serialiser behind \<open>SetSchema\<close>.
  All of them are functions: called twice on the same arguments they return the same.
\<close>

record ('scheme, 'namer, 'ref, 'defn, 'config, 'obj, 'err, 'doc, 'models, 'model, 'props) externals =
  NewDefinitionNamer :: "'scheme list \<Rightarrow> 'namer"
  DefaultOpenAPIConfig :: "('ref \<Rightarrow> string \<rightharpoonup> 'defn) \<Rightarrow> 'namer \<Rightarrow> 'config"
  GetCanonicalTypeName :: "'obj \<Rightarrow> string"
  BuildOpenAPIDefinitionsForResources :: "'config \<Rightarrow> string list \<Rightarrow> 'err + 'doc Swagger"
  ToProtoModels :: "'doc Swagger \<Rightarrow> 'err + 'models"
  GetModelsByGKV :: "'models \<Rightarrow> 'err + (GroupVersionKind \<rightharpoonup> 'model)"
  Convert :: "'model option \<Rightarrow> 'err list \<times> 'props"
  NewAggregate :: "'err list \<Rightarrow> 'err"
  Marshal :: "'props \<Rightarrow> 'err + string"

text \<open>
  Modelled from the spec: \<open>GroupVersion.WithKind\<close>, a library method whose body is not
  among the sources. Section 4.4, step 1: the lookup key is (descriptor.groupVersion.group,
  descriptor.groupVersion.version, descriptor.names.kind).
\<close>

definition WithKind :: "GroupVersion \<Rightarrow> string \<Rightarrow> GroupVersionKind" where
  "WithKind gv kind = \<lparr>gvk_Group = Group gv, gvk_Version = Version gv, gvk_Kind = kind\<rparr>"

text \<open>
  Modelled from the spec: \<open>APIResourceVersion.SetSchema\<close>, a method of
  \<open>pkg/apis/apis/v1alpha1\<close> whose body is not among the sources. Section 4.4, step 6:
  the version entry's schema fragment is the output of the conversion; the call site
  (lines 158--160) shows that it can fail. So it serialises the fragment, stores the
  bytes in the \<open>Schema\<close> field of its receiver and leaves the other fields alone, or
  returns the serialiser's error.
\<close>

definition SetSchema ::
  "('props \<Rightarrow> 'err + string) \<Rightarrow> APIResourceVersion \<Rightarrow> 'props \<Rightarrow> 'err + APIResourceVersion" where
  "SetSchema marshal v schema =
     (case marshal schema of
        Inl err \<Rightarrow> Inl err
      | Inr raw \<Rightarrow> Inr (v\<lparr>Schema := \<lparr>Raw = raw\<rparr>\<rparr>))"


text \<open>\<open>fmt.Sprintf("internal.%s.%s", plural, group)\<close>.\<close>

definition Sprintf_internal :: "string \<Rightarrow> string \<Rightarrow> string" where
  "Sprintf_internal plural grp = ''internal.'' @ plural @ ''.'' @ grp"

section \<open>The definition aggregator (lines 94--104)\<close>

text \<open>
  The closure handed to \<open>DefaultOpenAPIConfig\<close>. A provider returns a Go map, here a
  finite map \<open>string \<rightharpoonup> 'defn\<close>. The inner loop ranges over that map, and the
  language leaves the order of the visit open: \<open>rangeOrder m\<close> is the sequence of keys
  in which the run visits \<open>m\<close>, a parameter of the model. \<open>mergeDefinitions\<close> is the
  inner loop (lines 98--100), \<open>getDefinitions\<close> the outer one (lines 95--103).
\<close>

definition mergeDefinitions ::
  "string list \<Rightarrow> (string \<rightharpoonup> 'defn) \<Rightarrow> (string \<rightharpoonup> 'defn) \<Rightarrow> (string \<rightharpoonup> 'defn)" where
  "mergeDefinitions keys m result =
     fold (\<lambda>key result. case m key of Some val \<Rightarrow> result(key \<mapsto> val) | None \<Rightarrow> result)
       keys result"

definition getDefinitions ::
  "((string \<rightharpoonup> 'defn) \<Rightarrow> string list) \<Rightarrow> ('ref \<Rightarrow> string \<rightharpoonup> 'defn) list \<Rightarrow> 'ref
     \<Rightarrow> (string \<rightharpoonup> 'defn)" where
  "getDefinitions rangeOrder openAPIDefinitionsGetters ref =
     fold (\<lambda>openAPIDefinitionsGetter result.
             let m = openAPIDefinitionsGetter ref
             in mergeDefinitions (rangeOrder m) m result)
       openAPIDefinitionsGetters Map.empty"

text \<open>
  What the language guarantees of \<open>range\<close> over a map: every key is visited, once.
\<close>

definition rangesOver :: "(('k \<rightharpoonup> 'v) \<Rightarrow> 'k list) \<Rightarrow> ('k \<rightharpoonup> 'v) \<Rightarrow> bool" where
  "rangesOver rangeOrder m \<longleftrightarrow> distinct (rangeOrder m) \<and> set (rangeOrder m) = dom m"

section \<open>Building the model index (lines 94--123)\<close>

text \<open>
  The first half of \<open>createAPIResourceSchemas\<close>: each \<open>if err != nil { return nil, err }\<close>
  is an \<open>Inl\<close> branch, and the result is the index \<open>modelsByGKV\<close> of line 120.
\<close>

definition buildModelsByGKV ::
  "('scheme, 'namer, 'ref, 'defn, 'config, 'obj, 'err, 'doc, 'models, 'model, 'props) externals
     \<Rightarrow> ((string \<rightharpoonup> 'defn) \<Rightarrow> string list) \<Rightarrow> 'scheme list
     \<Rightarrow> ('ref \<Rightarrow> string \<rightharpoonup> 'defn) list \<Rightarrow> 'obj InternalAPI list
     \<Rightarrow> 'err + (GroupVersionKind \<rightharpoonup> 'model)" where
  "buildModelsByGKV X rangeOrder schemes openAPIDefinitionsGetters defs =
     (let config = DefaultOpenAPIConfig X (getDefinitions rangeOrder openAPIDefinitionsGetters)
                     (NewDefinitionNamer X schemes);
          canonicalTypeNames = map (\<lambda>def. GetCanonicalTypeName X (Instance def)) defs
      in case BuildOpenAPIDefinitionsForResources X config canonicalTypeNames of
           Inl err \<Rightarrow> Inl err
         | Inr swagger \<Rightarrow>
             (let swagger = swagger\<lparr>Info_Version := ''1.0''\<rparr>
              in case ToProtoModels X swagger of
                   Inl err \<Rightarrow> Inl err
                 | Inr models \<Rightarrow>
                     (case GetModelsByGKV X models of
                        Inl err \<Rightarrow> Inl err
                      | Inr modelsByGKV \<Rightarrow> Inr modelsByGKV)))"

section \<open>Assembling the schemas (lines 125--164)\<close>

text \<open>
  \<open>assembleSchema\<close> is the body of the loop (lines 127--160) for one descriptor:
  \<open>Inl\<close> where the body returns \<open>nil, err\<close>, \<open>Inr\<close> the schema it appends otherwise.
  \<open>assembleLoop\<close> is the loop with its accumulator \<open>apis\<close>, and
  \<open>createAPIResourceSchemas\<close> the whole function. Its result is the pair the Go function
  returns: the slice (\<open>[]\<close> is the nil slice) and the error (\<open>None\<close> is nil).
\<close>

definition assembleSchema ::
  "('scheme, 'namer, 'ref, 'defn, 'config, 'obj, 'err, 'doc, 'models, 'model, 'props) externals
     \<Rightarrow> (GroupVersionKind \<rightharpoonup> 'model) \<Rightarrow> 'obj InternalAPI \<Rightarrow> 'err + APIResourceSchema" where
  "assembleSchema X modelsByGKV def =
     (let gvk = WithKind (GroupVersion def) (Kind (Names def));
          (errs, schemaProps) = Convert X (modelsByGKV gvk)
      in if length errs > 0 then Inl (NewAggregate X errs)
         else
           let grp = Group (GroupVersion def);
               grp = (if grp = '''' then ''core'' else grp);
               spec = \<lparr>ObjectMeta = \<lparr>meta_Name = Sprintf_internal (Plural (Names def)) grp\<rparr>,
                       Spec = \<lparr>spec_Group = Group (GroupVersion def),
                               spec_Names = Names def,
                               Scope = ResourceSope def,
                               Versions = [\<lparr>Name = ''v1'', Served = True, Storage = True,
                                            Schema = \<lparr>Raw = []\<rparr>,
                                            Subresources = \<lparr>Status = None\<rparr>\<rparr>]\<rparr>\<rparr>;
               versions = Versions (Spec spec);
               versions = (if HasStatus def
                           then versions[0 := (versions ! 0)\<lparr>Subresources :=
                                  (Subresources (versions ! 0))\<lparr>Status :=
                                     Some CustomResourceSubresourceStatus\<rparr>\<rparr>]
                           else versions)
           in case SetSchema (Marshal X) (versions ! 0) schemaProps of
                Inl err \<Rightarrow> Inl err
              | Inr v \<Rightarrow> Inr (spec\<lparr>Spec := (Spec spec)\<lparr>Versions := versions[0 := v]\<rparr>\<rparr>))"

fun assembleLoop ::
  "('scheme, 'namer, 'ref, 'defn, 'config, 'obj, 'err, 'doc, 'models, 'model, 'props) externals
     \<Rightarrow> (GroupVersionKind \<rightharpoonup> 'model) \<Rightarrow> 'obj InternalAPI list \<Rightarrow> APIResourceSchema list
     \<Rightarrow> APIResourceSchema list \<times> 'err option" where
  "assembleLoop X modelsByGKV [] apis = (apis, None)"
| "assembleLoop X modelsByGKV (def # defs) apis =
     (case assembleSchema X modelsByGKV def of
        Inl err \<Rightarrow> ([], Some err)
      | Inr spec \<Rightarrow> assembleLoop X modelsByGKV defs (apis @ [spec]))"

definition createAPIResourceSchemas ::
  "('scheme, 'namer, 'ref, 'defn, 'config, 'obj, 'err, 'doc, 'models, 'model, 'props) externals
     \<Rightarrow> ((string \<rightharpoonup> 'defn) \<Rightarrow> string list) \<Rightarrow> 'scheme list
     \<Rightarrow> ('ref \<Rightarrow> string \<rightharpoonup> 'defn) list \<Rightarrow> 'obj InternalAPI list
     \<Rightarrow> APIResourceSchema list \<times> 'err option" where
  "createAPIResourceSchemas X rangeOrder schemes openAPIDefinitionsGetters defs =
     (case buildModelsByGKV X rangeOrder schemes openAPIDefinitionsGetters defs of
        Inl err \<Rightarrow> ([], Some err)
      | Inr modelsByGKV \<Rightarrow> assembleLoop X modelsByGKV defs [])"

section \<open>A small instance of the collaborators\<close>

text \<open>
  A concrete instance to run the pipeline on. A type's canonical name is its instance
  string; the description document lists the requested names, and fails to build when a
  name has no definition; the index maps a triple to the model named by its kind; the
  converter rejects the nil model and the model \<open>Bad\<close>; serialisation rejects the
  fragment of the model \<open>NaN\<close>.
\<close>

definition exampleIndex :: "string list \<Rightarrow> GroupVersionKind \<rightharpoonup> string" where
  "exampleIndex models gvk = (if gvk_Kind gvk \<in> set models then Some (gvk_Kind gvk) else None)"

datatype exampleError = Failure string | Aggregate "exampleError list"

definition exampleExternals ::
  "(unit, unit, unit, string, unit \<Rightarrow> string \<rightharpoonup> string, string, exampleError, string list,
    string list, string, string) externals" where
  "exampleExternals =
     \<lparr>NewDefinitionNamer = (\<lambda>schemes. ()),
      DefaultOpenAPIConfig = (\<lambda>getDefs namer. getDefs),
      GetCanonicalTypeName = (\<lambda>obj. obj),
      BuildOpenAPIDefinitionsForResources =
        (\<lambda>config names. if list_all (\<lambda>n. config () n \<noteq> None) names
                         then Inr \<lparr>Info_Version = [], Document = names\<rparr>
                         else Inl (Failure ''unknown type'')),
      ToProtoModels = (\<lambda>swagger. Inr (Document swagger)),
      GetModelsByGKV = (\<lambda>models. Inr (exampleIndex models)),
      Convert =
        (\<lambda>model. case model of
                    None \<Rightarrow> ([Failure ''no model''], [])
                  | Some m \<Rightarrow>
                      if m = ''Bad''
                      then ([Failure ''unsupported field'', Failure ''ambiguous reference''], [])
                      else ([], ''{'' @ m @ ''}'')),
      NewAggregate = Aggregate,
      Marshal = (\<lambda>props. if props = ''{NaN}'' then Inl (Failure ''unsupported value'')
                         else Inr props)\<rparr>"

definition exampleAPI :: "string \<Rightarrow> string \<Rightarrow> string \<Rightarrow> bool \<Rightarrow> string InternalAPI" where
  "exampleAPI plural grp kind hasStatus =
     \<lparr>Names = \<lparr>Plural = plural, Singular = [], Kind = kind\<rparr>,
      GroupVersion = \<lparr>Group = grp, Version = ''v1''\<rparr>,
      Instance = kind,
      ResourceSope = NamespaceScoped,
      HasStatus = hasStatus\<rparr>"

definition exampleGetter :: "unit \<Rightarrow> string \<rightharpoonup> string" where
  "exampleGetter ref = [''Widget'' \<mapsto> ''widget definition'', ''Bad'' \<mapsto> ''bad definition'',
                        ''NaN'' \<mapsto> ''nan definition'']"

definition exampleOrder :: "(string \<rightharpoonup> string) \<Rightarrow> string list" where
  "exampleOrder m = filter (\<lambda>k. m k \<noteq> None) [''Widget'', ''Bad'', ''NaN'', ''Gadget'']"

definition reversedOrder :: "(string \<rightharpoonup> string) \<Rightarrow> string list" where
  "reversedOrder m = filter (\<lambda>k. m k \<noteq> None) [''Gadget'', ''NaN'', ''Bad'', ''Widget'']"

text \<open>Two providers that both define \<open>Widget\<close>; \<open>providerB\<close> is registered later.\<close>

definition providerA :: "unit \<Rightarrow> string \<rightharpoonup> string" where
  "providerA ref = [''Widget'' \<mapsto> ''widget of A'', ''Gadget'' \<mapsto> ''gadget of A'']"

definition providerB :: "unit \<Rightarrow> string \<rightharpoonup> string" where
  "providerB ref = [''Widget'' \<mapsto> ''widget of B'']"


section \<open>The loop body and the loop\<close>

lemma assembleSchema_eq:
  "assembleSchema X idx d =
     (case Convert X (idx (WithKind (GroupVersion d) (Kind (Names d)))) of
        (errs, props) \<Rightarrow>
          if errs \<noteq> [] then Inl (NewAggregate X errs)
          else (case Marshal X props of
                  Inl err \<Rightarrow> Inl err
                | Inr raw \<Rightarrow>
                    Inr \<lparr>ObjectMeta = \<lparr>meta_Name = ''internal.'' @ Plural (Names d) @ ''.'' @
                            (if Group (GroupVersion d) = [] then ''core'' else Group (GroupVersion d))\<rparr>,
                         Spec = \<lparr>spec_Group = Group (GroupVersion d),
                                 spec_Names = Names d,
                                 Scope = ResourceSope d,
                                 Versions = [\<lparr>Name = ''v1'', Served = True, Storage = True,
                                              Schema = \<lparr>Raw = raw\<rparr>,
                                              Subresources = \<lparr>Status =
                                                (if HasStatus d then Some CustomResourceSubresourceStatus
                                                 else None)\<rparr>\<rparr>]\<rparr>\<rparr>))"
  by (simp add: assembleSchema_def SetSchema_def Sprintf_internal_def Let_def
      split: prod.splits sum.splits)

lemma assembleLoop_append_ok:
  "assembleLoop X idx pre acc = (out, None) \<Longrightarrow>
   assembleLoop X idx (pre @ post) acc = assembleLoop X idx post out"
  by (induction pre arbitrary: acc) (auto split: sum.splits)

lemma assembleLoop_ok_iff:
  "assembleLoop X idx defs acc = (out, None) \<longleftrightarrow>
   (\<exists>specs. map (assembleSchema X idx) defs = map Inr specs \<and> out = acc @ specs)"
proof (induction defs arbitrary: acc)
  case Nil
  then show ?case by auto
next
  case (Cons d ds)
  show ?case
  proof (cases "assembleSchema X idx d")
    case (Inl e)
    then show ?thesis by auto
  next
    case (Inr s)
    then show ?thesis using Cons.IH [of "acc @ [s]"]
      by (auto simp: map_eq_Cons_conv)
  qed
qed

lemma assembleLoop_error_nil:
  "assembleLoop X idx defs acc = (out, Some err) \<Longrightarrow> out = []"
  by (induction defs arbitrary: acc) (auto split: sum.splits)

lemma assembleLoop_fail_at:
  "assembleLoop X idx pre acc = (out, None) \<Longrightarrow> assembleSchema X idx d = Inl err \<Longrightarrow>
   assembleLoop X idx (pre @ d # post) acc = ([], Some err)"
  by (simp add: assembleLoop_append_ok)

lemma assembleLoop_some_fail:
  "d \<in> set defs \<Longrightarrow> assembleSchema X idx d = Inl e \<Longrightarrow>
   \<exists>err. assembleLoop X idx defs acc = ([], Some err)"
  by (induction defs arbitrary: acc) (auto split: sum.splits)

lemma assembleSchema_conv_errors:
  "fst (Convert X (idx (WithKind (GroupVersion d) (Kind (Names d))))) = errs \<Longrightarrow> errs \<noteq> [] \<Longrightarrow>
   assembleSchema X idx d = Inl (NewAggregate X errs)"
  by (auto simp: assembleSchema_eq split: prod.splits)

lemma assembleSchema_marshal_error:
  "Convert X (idx (WithKind (GroupVersion d) (Kind (Names d)))) = ([], props) \<Longrightarrow>
   Marshal X props = Inl err \<Longrightarrow> assembleSchema X idx d = Inl err"
  by (simp add: assembleSchema_eq)

lemma assembleSchema_ok:
  "fst (Convert X (idx (WithKind (GroupVersion d) (Kind (Names d))))) = [] \<Longrightarrow>
   Marshal X (snd (Convert X (idx (WithKind (GroupVersion d) (Kind (Names d)))))) = Inr raw \<Longrightarrow>
   \<exists>s. assembleSchema X idx d = Inr s \<and> Raw (Schema (hd (Versions (Spec s)))) = raw"
  by (auto simp: assembleSchema_eq split: prod.splits)

lemma assembleLoop_all_ok:
  "\<forall>p\<in>set pre. \<exists>s. assembleSchema X idx p = Inr s \<Longrightarrow> \<exists>out. assembleLoop X idx pre acc = (out, None)"
  by (induction pre arbitrary: acc) auto

lemma assembleSchema_version:
  "assembleSchema X idx d = Inr s \<Longrightarrow>
   \<exists>v. Versions (Spec s) = [v] \<and> Name v = ''v1'' \<and> Served v \<and> Storage v \<and>
       (Status (Subresources v) \<noteq> None \<longleftrightarrow> HasStatus d)"
  by (auto simp: assembleSchema_eq split: prod.splits if_splits sum.splits)

lemma create_ok_iff:
  "createAPIResourceSchemas X rangeOrder schemes getters defs = (apis, None) \<longleftrightarrow>
   (\<exists>idx. buildModelsByGKV X rangeOrder schemes getters defs = Inr idx \<and>
          map (assembleSchema X idx) defs = map Inr apis)"
  by (auto simp: createAPIResourceSchemas_def assembleLoop_ok_iff split: sum.splits)

section \<open>The aggregator as an override of tables\<close>

lemma mergeDefinitions_apply:
  "mergeDefinitions keys m result k = (if k \<in> set keys \<and> m k \<noteq> None then m k else result k)"
  unfolding mergeDefinitions_def
  by (induction keys arbitrary: result) (auto split: option.splits)

lemma mergeDefinitions_map_add:
  assumes "set keys = dom m"
  shows "mergeDefinitions keys m result = result ++ m"
  using assms by (auto simp: fun_eq_iff mergeDefinitions_apply map_add_def split: option.splits)

lemma getDefinitions_map_add:
  assumes "\<forall>g\<in>set getters. set (rangeOrder (g ref)) = dom (g ref)"
  shows "getDefinitions rangeOrder getters ref = fold (\<lambda>g result. result ++ g ref) getters Map.empty"
proof -
  have "fold (\<lambda>g result. let m = g ref in mergeDefinitions (rangeOrder m) m result) getters r
      = fold (\<lambda>g result. result ++ g ref) getters r" for r
    using assms by (induction getters arbitrary: r) (simp_all add: mergeDefinitions_map_add)
  then show ?thesis by (simp add: getDefinitions_def)
qed

lemma fold_map_add_apply:
  "fold (\<lambda>g result. result ++ g ref) getters r k =
     (case find (\<lambda>g. g ref k \<noteq> None) (rev getters) of None \<Rightarrow> r k | Some g \<Rightarrow> g ref k)"
proof (induction getters rule: rev_induct)
  case Nil
  then show ?case by simp
next
  case (snoc g gs)
  then show ?case by (auto simp: map_add_def split: option.splits)
qed

section \<open>Evaluating the small instance\<close>

lemmas example_simps =
  createAPIResourceSchemas_def buildModelsByGKV_def getDefinitions_def mergeDefinitions_def
  exampleExternals_def exampleAPI_def exampleGetter_def exampleOrder_def exampleIndex_def
  assembleSchema_eq WithKind_def

section \<open>The claims\<close>

text \<open>
  C1. On a successful run the name of the schema produced for each descriptor is
  \<open>"internal." + plural + "." + group\<close>, with \<open>"core"\<close> in place of an empty group:
  the names of the output, in order, are these strings of the descriptors, in order.
\<close>

theorem C1_identity_naming:
  assumes "createAPIResourceSchemas X rangeOrder schemes getters defs = (apis, None)"
  shows "map (\<lambda>spec. meta_Name (ObjectMeta spec)) apis =
         map (\<lambda>def. ''internal.'' @ Plural (Names def) @ ''.'' @
                (if Group (GroupVersion def) = '''' then ''core'' else Group (GroupVersion def))) defs"
proof -
  from assms obtain idx where m: "map (assembleSchema X idx) defs = map Inr apis"
    by (auto simp: create_ok_iff)
  have "\<And>d s. assembleSchema X idx d = Inr s \<Longrightarrow>
        meta_Name (ObjectMeta s) = ''internal.'' @ Plural (Names d) @ ''.'' @
          (if Group (GroupVersion d) = '''' then ''core'' else Group (GroupVersion d))"
    by (auto simp: assembleSchema_eq split: prod.splits if_splits sum.splits)
  with m show ?thesis
    by (induction defs arbitrary: apis) (auto simp: map_eq_Cons_conv)
qed

text \<open>The naming rule on plural \<open>widgets\<close>, with the empty group and with \<open>example.io\<close>.\<close>

theorem C1_identity_naming_witness:
  "snd (createAPIResourceSchemas exampleExternals exampleOrder [] [exampleGetter]
     [exampleAPI ''widgets'' '''' ''Widget'' True, exampleAPI ''widgets'' ''example.io'' ''Widget'' False]) = None
   \<and> map (\<lambda>spec. meta_Name (ObjectMeta spec))
      (fst (createAPIResourceSchemas exampleExternals exampleOrder [] [exampleGetter]
     [exampleAPI ''widgets'' '''' ''Widget'' True, exampleAPI ''widgets'' ''example.io'' ''Widget'' False]))
     = [''internal.widgets.core'', ''internal.widgets.example.io'']"
proof -
  let ?defs = "[exampleAPI ''widgets'' '''' ''Widget'' True, exampleAPI ''widgets'' ''example.io'' ''Widget'' False]"
  obtain apis where run: "createAPIResourceSchemas exampleExternals exampleOrder [] [exampleGetter] ?defs = (apis, None)"
    by (simp add: example_simps)
  from C1_identity_naming [OF run]
  have "map (\<lambda>spec. meta_Name (ObjectMeta spec)) apis =
        [''internal.widgets.core'', ''internal.widgets.example.io'']"
    by (simp add: exampleAPI_def)
  with run show ?thesis by simp
qed



text \<open>
  C3, as amended. If the conversion of a descriptor \<open>d\<close> yields a non-empty error list,
  no descriptor before it does, and the fragment of every descriptor before it
  serialises (\<open>SetSchema\<close> returns no error there), then the run returns no schemas and
  the aggregate of exactly the errors of \<open>d\<close>, whatever the descriptors after \<open>d\<close> are.
\<close>

theorem C3_abort_at_first_conversion_error:
  assumes "buildModelsByGKV X rangeOrder schemes getters (pre @ d # post) = Inr modelsByGKV"
      and "\<forall>p\<in>set pre. fst (Convert X (modelsByGKV (WithKind (GroupVersion p) (Kind (Names p))))) = []"
      and "\<forall>p\<in>set pre. \<exists>raw. Marshal X (snd (Convert X
              (modelsByGKV (WithKind (GroupVersion p) (Kind (Names p)))))) = Inr raw"
      and "fst (Convert X (modelsByGKV (WithKind (GroupVersion d) (Kind (Names d))))) = errs"
      and "errs \<noteq> []"
  shows "createAPIResourceSchemas X rangeOrder schemes getters (pre @ d # post) =
         ([], Some (NewAggregate X errs))"
proof -
  have "\<forall>p\<in>set pre. \<exists>s. assembleSchema X modelsByGKV p = Inr s"
    using assms(2,3) assembleSchema_ok by blast
  then obtain out where "assembleLoop X modelsByGKV pre [] = (out, None)"
    using assembleLoop_all_ok by blast
  moreover have "assembleSchema X modelsByGKV d = Inl (NewAggregate X errs)"
    using assms(4,5) by (rule assembleSchema_conv_errors)
  ultimately have "assembleLoop X modelsByGKV (pre @ d # post) [] = ([], Some (NewAggregate X errs))"
    by (rule assembleLoop_fail_at)
  with assms(1) show ?thesis by (simp add: createAPIResourceSchemas_def)
qed

text \<open>
  Three descriptors, the second and the third with conversion errors: the run returns
  the aggregate of the second's two errors and no schema.
\<close>

theorem C3_abort_at_first_conversion_error_witness:
  "buildModelsByGKV exampleExternals exampleOrder [] [exampleGetter]
      [exampleAPI ''widgets'' [] ''Widget'' True, exampleAPI ''bads'' [] ''Bad'' False,
       exampleAPI ''bads'' [] ''Bad'' True] =
     Inr (exampleIndex [''Widget'', ''Bad'', ''Bad''])
   \<and> Convert exampleExternals (exampleIndex [''Widget'', ''Bad'', ''Bad'']
        (WithKind (GroupVersion (exampleAPI ''widgets'' [] ''Widget'' True))
           (Kind (Names (exampleAPI ''widgets'' [] ''Widget'' True))))) = ([], ''{Widget}'')
   \<and> Marshal exampleExternals ''{Widget}'' = Inr ''{Widget}''
   \<and> fst (Convert exampleExternals (exampleIndex [''Widget'', ''Bad'', ''Bad'']
        (WithKind (GroupVersion (exampleAPI ''bads'' [] ''Bad'' False))
           (Kind (Names (exampleAPI ''bads'' [] ''Bad'' False)))))) =
       [Failure ''unsupported field'', Failure ''ambiguous reference'']
   \<and> createAPIResourceSchemas exampleExternals exampleOrder [] [exampleGetter]
      [exampleAPI ''widgets'' [] ''Widget'' True, exampleAPI ''bads'' [] ''Bad'' False,
       exampleAPI ''bads'' [] ''Bad'' True] =
       ([], Some (Aggregate [Failure ''unsupported field'', Failure ''ambiguous reference'']))"
proof -
  let ?w = "exampleAPI ''widgets'' [] ''Widget'' True"
  let ?b = "exampleAPI ''bads'' [] ''Bad'' False"
  let ?b' = "exampleAPI ''bads'' [] ''Bad'' True"
  let ?idx = "exampleIndex [''Widget'', ''Bad'', ''Bad'']"
  let ?errs = "[Failure ''unsupported field'', Failure ''ambiguous reference'']"
  have h1: "buildModelsByGKV exampleExternals exampleOrder [] [exampleGetter] ([?w] @ ?b # [?b']) = Inr ?idx"
    by (simp add: example_simps)
  have c: "Convert exampleExternals (?idx (WithKind (GroupVersion ?w) (Kind (Names ?w)))) = ([], ''{Widget}'')"
    by (simp add: example_simps)
  have m: "Marshal exampleExternals ''{Widget}'' = Inr ''{Widget}''"
    by (simp add: exampleExternals_def)
  have h2: "\<forall>p\<in>set [?w]. fst (Convert exampleExternals (?idx (WithKind (GroupVersion p) (Kind (Names p))))) = []"
    using c by simp
  have h3: "\<forall>p\<in>set [?w]. \<exists>raw. Marshal exampleExternals (snd (Convert exampleExternals
              (?idx (WithKind (GroupVersion p) (Kind (Names p)))))) = Inr raw"
    using c m by simp
  have h4: "fst (Convert exampleExternals (?idx (WithKind (GroupVersion ?b) (Kind (Names ?b))))) = ?errs"
    by (simp add: example_simps)
  have h5: "?errs \<noteq> []" by simp
  have "createAPIResourceSchemas exampleExternals exampleOrder [] [exampleGetter] ([?w] @ ?b # [?b']) =
        ([], Some (NewAggregate exampleExternals ?errs))"
    by (rule C3_abort_at_first_conversion_error [OF h1 h2 h3 h4 h5])
  then have "createAPIResourceSchemas exampleExternals exampleOrder [] [exampleGetter] [?w, ?b, ?b'] =
        ([], Some (Aggregate ?errs))"
    by (simp add: exampleExternals_def)
  with h1 c m h4 show ?thesis by simp
qed

text \<open>
  C3 as stated fails: of two descriptors, the first converts without error but its
  fragment does not serialise, and the conversion of the second yields two errors. The
  run returns the serialisation error of the first, not the aggregate of the second.
\<close>

theorem C3_counterexample:
  "buildModelsByGKV exampleExternals exampleOrder [] [exampleGetter]
      [exampleAPI ''nans'' [] ''NaN'' False, exampleAPI ''bads'' [] ''Bad'' False] =
     Inr (exampleIndex [''NaN'', ''Bad''])
   \<and> fst (Convert exampleExternals (exampleIndex [''NaN'', ''Bad'']
        (WithKind (GroupVersion (exampleAPI ''nans'' [] ''NaN'' False))
           (Kind (Names (exampleAPI ''nans'' [] ''NaN'' False)))))) = []
   \<and> fst (Convert exampleExternals (exampleIndex [''NaN'', ''Bad'']
        (WithKind (GroupVersion (exampleAPI ''bads'' [] ''Bad'' False))
           (Kind (Names (exampleAPI ''bads'' [] ''Bad'' False)))))) =
       [Failure ''unsupported field'', Failure ''ambiguous reference'']
   \<and> createAPIResourceSchemas exampleExternals exampleOrder [] [exampleGetter]
      [exampleAPI ''nans'' [] ''NaN'' False, exampleAPI ''bads'' [] ''Bad'' False] =
       ([], Some (Failure ''unsupported value''))
   \<and> Failure ''unsupported value'' \<noteq>
       NewAggregate exampleExternals [Failure ''unsupported field'', Failure ''ambiguous reference'']"
  by (simp add: example_simps)

text \<open>
  C4. Whatever the input, a run that returns an error returns no schemas (the nil
  slice); a run that returns a non-empty slice returns no error, the index was built and
  every descriptor was assembled, the slice being exactly their schemas. Every failure
  ends the run with an error and no schemas: a failure to build the description
  document, to extract the models from it, or to index them is returned as the error of
  the run; and once the index is built, a descriptor whose conversion reports errors or
  whose fragment does not serialise makes the run return an error.
\<close>

theorem C4_no_partial_result:
  "(\<forall>err. snd (createAPIResourceSchemas X rangeOrder schemes getters defs) = Some err \<longrightarrow>
        fst (createAPIResourceSchemas X rangeOrder schemes getters defs) = [])
   \<and> (fst (createAPIResourceSchemas X rangeOrder schemes getters defs) \<noteq> [] \<longrightarrow>
        snd (createAPIResourceSchemas X rangeOrder schemes getters defs) = None \<and>
        (\<exists>modelsByGKV. buildModelsByGKV X rangeOrder schemes getters defs = Inr modelsByGKV \<and>
            map (assembleSchema X modelsByGKV) defs =
            map Inr (fst (createAPIResourceSchemas X rangeOrder schemes getters defs))))
   \<and> (\<forall>err. buildModelsByGKV X rangeOrder schemes getters defs = Inl err \<longrightarrow>
        createAPIResourceSchemas X rangeOrder schemes getters defs = ([], Some err))
   \<and> ((\<exists>modelsByGKV d err. buildModelsByGKV X rangeOrder schemes getters defs = Inr modelsByGKV \<and>
            d \<in> set defs \<and> assembleSchema X modelsByGKV d = Inl err) \<longrightarrow>
        (\<exists>err. createAPIResourceSchemas X rangeOrder schemes getters defs = ([], Some err)))
   \<and> (\<forall>err. BuildOpenAPIDefinitionsForResources X
                (DefaultOpenAPIConfig X (getDefinitions rangeOrder getters) (NewDefinitionNamer X schemes))
                (map (\<lambda>def. GetCanonicalTypeName X (Instance def)) defs) = Inl err \<longrightarrow>
        createAPIResourceSchemas X rangeOrder schemes getters defs = ([], Some err))
   \<and> (\<forall>swagger err. BuildOpenAPIDefinitionsForResources X
                (DefaultOpenAPIConfig X (getDefinitions rangeOrder getters) (NewDefinitionNamer X schemes))
                (map (\<lambda>def. GetCanonicalTypeName X (Instance def)) defs) = Inr swagger \<and>
              ToProtoModels X (swagger\<lparr>Info_Version := ''1.0''\<rparr>) = Inl err \<longrightarrow>
        createAPIResourceSchemas X rangeOrder schemes getters defs = ([], Some err))
   \<and> (\<forall>swagger models err. BuildOpenAPIDefinitionsForResources X
                (DefaultOpenAPIConfig X (getDefinitions rangeOrder getters) (NewDefinitionNamer X schemes))
                (map (\<lambda>def. GetCanonicalTypeName X (Instance def)) defs) = Inr swagger \<and>
              ToProtoModels X (swagger\<lparr>Info_Version := ''1.0''\<rparr>) = Inr models \<and>
              GetModelsByGKV X models = Inl err \<longrightarrow>
        createAPIResourceSchemas X rangeOrder schemes getters defs = ([], Some err))
   \<and> (\<forall>swagger models modelsByGKV d.
          BuildOpenAPIDefinitionsForResources X
                (DefaultOpenAPIConfig X (getDefinitions rangeOrder getters) (NewDefinitionNamer X schemes))
                (map (\<lambda>def. GetCanonicalTypeName X (Instance def)) defs) = Inr swagger \<and>
          ToProtoModels X (swagger\<lparr>Info_Version := ''1.0''\<rparr>) = Inr models \<and>
          GetModelsByGKV X models = Inr modelsByGKV \<and> d \<in> set defs \<and>
          (fst (Convert X (modelsByGKV (WithKind (GroupVersion d) (Kind (Names d))))) \<noteq> [] \<or>
           (\<exists>err. Marshal X (snd (Convert X (modelsByGKV (WithKind (GroupVersion d) (Kind (Names d))))))
                    = Inl err)) \<longrightarrow>
        (\<exists>err. createAPIResourceSchemas X rangeOrder schemes getters defs = ([], Some err)))"
proof -
  let ?R = "createAPIResourceSchemas X rangeOrder schemes getters defs"
  let ?B = "BuildOpenAPIDefinitionsForResources X
                (DefaultOpenAPIConfig X (getDefinitions rangeOrder getters) (NewDefinitionNamer X schemes))
                (map (\<lambda>def. GetCanonicalTypeName X (Instance def)) defs)"
  have a: "fst ?R = []" if "snd ?R = Some err" for err
  proof (cases "buildModelsByGKV X rangeOrder schemes getters defs")
    case (Inl e)
    then show ?thesis by (simp add: createAPIResourceSchemas_def)
  next
    case (Inr idx)
    with that have "assembleLoop X idx defs [] = (fst ?R, Some err)"
      by (simp add: createAPIResourceSchemas_def) (metis prod.collapse)
    then show ?thesis by (rule assembleLoop_error_nil)
  qed
  have b: "snd ?R = None \<and> (\<exists>idx. buildModelsByGKV X rangeOrder schemes getters defs = Inr idx \<and>
            map (assembleSchema X idx) defs = map Inr (fst ?R))" if "fst ?R \<noteq> []"
  proof -
    from that a have n: "snd ?R = None" by (cases "snd ?R") auto
    then have "?R = (fst ?R, None)" by (metis prod.collapse)
    then have "\<exists>idx. buildModelsByGKV X rangeOrder schemes getters defs = Inr idx \<and>
            map (assembleSchema X idx) defs = map Inr (fst ?R)"
      by (rule create_ok_iff [THEN iffD1])
    with n show ?thesis by simp
  qed
  have c: "?R = ([], Some err)"
    if "buildModelsByGKV X rangeOrder schemes getters defs = Inl err" for err
    using that by (simp add: createAPIResourceSchemas_def)
  have d: "\<exists>err. ?R = ([], Some err)"
    if "\<exists>idx d err. buildModelsByGKV X rangeOrder schemes getters defs = Inr idx \<and>
            d \<in> set defs \<and> assembleSchema X idx d = Inl err"
    using that
    by (auto simp: createAPIResourceSchemas_def intro: assembleLoop_some_fail)
  have s1: "?R = ([], Some err)" if "?B = Inl err" for err
  proof -
    from that have "buildModelsByGKV X rangeOrder schemes getters defs = Inl err"
      by (simp add: buildModelsByGKV_def)
    then show ?thesis by (rule c)
  qed
  have s2: "?R = ([], Some err)"
    if "?B = Inr swagger" and "ToProtoModels X (swagger\<lparr>Info_Version := ''1.0''\<rparr>) = Inl err"
    for swagger err
  proof -
    from that have "buildModelsByGKV X rangeOrder schemes getters defs = Inl err"
      by (simp add: buildModelsByGKV_def)
    then show ?thesis by (rule c)
  qed
  have s3: "?R = ([], Some err)"
    if "?B = Inr swagger" and "ToProtoModels X (swagger\<lparr>Info_Version := ''1.0''\<rparr>) = Inr models"
      and "GetModelsByGKV X models = Inl err"
    for swagger models err
  proof -
    from that have "buildModelsByGKV X rangeOrder schemes getters defs = Inl err"
      by (simp add: buildModelsByGKV_def)
    then show ?thesis by (rule c)
  qed
  have s4: "\<exists>err. ?R = ([], Some err)"
    if "?B = Inr swagger" and "ToProtoModels X (swagger\<lparr>Info_Version := ''1.0''\<rparr>) = Inr models"
      and "GetModelsByGKV X models = Inr idx" and "d \<in> set defs"
      and "fst (Convert X (idx (WithKind (GroupVersion d) (Kind (Names d))))) \<noteq> [] \<or>
           (\<exists>err. Marshal X (snd (Convert X (idx (WithKind (GroupVersion d) (Kind (Names d))))))
                    = Inl err)"
    for swagger models idx d
  proof -
    from that(1-3) have idx: "buildModelsByGKV X rangeOrder schemes getters defs = Inr idx"
      by (simp add: buildModelsByGKV_def)
    from that(5) have "\<exists>err. assembleSchema X idx d = Inl err"
      by (auto simp: assembleSchema_eq split: prod.splits)
    with idx that(4) show ?thesis by (intro d) blast
  qed
  show ?thesis
    apply (intro conjI allI impI)
    subgoal by (rule a)
    subgoal using b by blast
    subgoal using b by blast
    subgoal by (rule c)
    subgoal by (rule d)
    subgoal by (rule s1)
    subgoal by (elim conjE) (rule s2)
    subgoal by (elim conjE) (rule s3)
    subgoal by (elim conjE) (rule s4)
    done
qed


theorem C4_no_partial_result_witness:
  "snd (createAPIResourceSchemas exampleExternals exampleOrder [] [exampleGetter]
          [exampleAPI ''widgets'' [] ''Widget'' True, exampleAPI ''bads'' [] ''Bad'' False]) =
     Some (Aggregate [Failure ''unsupported field'', Failure ''ambiguous reference''])
   \<and> fst (createAPIResourceSchemas exampleExternals exampleOrder [] [exampleGetter]
          [exampleAPI ''widgets'' [] ''Widget'' True, exampleAPI ''bads'' [] ''Bad'' False]) = []
   \<and> BuildOpenAPIDefinitionsForResources exampleExternals
        (DefaultOpenAPIConfig exampleExternals (getDefinitions exampleOrder [exampleGetter])
           (NewDefinitionNamer exampleExternals []))
        (map (\<lambda>def. GetCanonicalTypeName exampleExternals (Instance def))
           [exampleAPI ''gizmos'' [] ''Gizmo'' False]) = Inl (Failure ''unknown type'')
   \<and> createAPIResourceSchemas exampleExternals exampleOrder [] [exampleGetter]
          [exampleAPI ''gizmos'' [] ''Gizmo'' False] = ([], Some (Failure ''unknown type''))
   \<and> ToProtoModels (exampleExternals\<lparr>ToProtoModels := \<lambda>swagger. Inl (Failure ''unresolvable component'')\<rparr>)
        \<lparr>Info_Version = ''1.0'', Document = [''Widget'']\<rparr> = Inl (Failure ''unresolvable component'')
   \<and> createAPIResourceSchemas
        (exampleExternals\<lparr>ToProtoModels := \<lambda>swagger. Inl (Failure ''unresolvable component'')\<rparr>)
        exampleOrder [] [exampleGetter] [exampleAPI ''widgets'' [] ''Widget'' True] =
       ([], Some (Failure ''unresolvable component''))
   \<and> GetModelsByGKV (exampleExternals\<lparr>GetModelsByGKV := \<lambda>models. Inl (Failure ''duplicate kind'')\<rparr>)
        [''Widget''] = Inl (Failure ''duplicate kind'')
   \<and> createAPIResourceSchemas
        (exampleExternals\<lparr>GetModelsByGKV := \<lambda>models. Inl (Failure ''duplicate kind'')\<rparr>)
        exampleOrder [] [exampleGetter] [exampleAPI ''widgets'' [] ''Widget'' True] =
       ([], Some (Failure ''duplicate kind''))
   \<and> fst (createAPIResourceSchemas exampleExternals exampleOrder [] [exampleGetter]
          [exampleAPI ''widgets'' [] ''Widget'' True]) \<noteq> []
   \<and> snd (createAPIResourceSchemas exampleExternals exampleOrder [] [exampleGetter]
          [exampleAPI ''widgets'' [] ''Widget'' True]) = None"
proof -
  let ?fails = "[exampleAPI ''widgets'' [] ''Widget'' True, exampleAPI ''bads'' [] ''Bad'' False]"
  let ?unknown = "[exampleAPI ''gizmos'' [] ''Gizmo'' False]"
  let ?good = "[exampleAPI ''widgets'' [] ''Widget'' True]"
  let ?XP = "exampleExternals\<lparr>ToProtoModels := \<lambda>swagger. Inl (Failure ''unresolvable component'')\<rparr>"
  let ?XG = "exampleExternals\<lparr>GetModelsByGKV := \<lambda>models. Inl (Failure ''duplicate kind'')\<rparr>"
  let ?doc = "\<lparr>Info_Version = [], Document = [''Widget'']\<rparr>"
  note on_fails = C4_no_partial_result [of exampleExternals exampleOrder "[]" "[exampleGetter]" ?fails]
  note on_unknown = C4_no_partial_result [of exampleExternals exampleOrder "[]" "[exampleGetter]" ?unknown]
  note on_good = C4_no_partial_result [of exampleExternals exampleOrder "[]" "[exampleGetter]" ?good]
  note on_XP = C4_no_partial_result [of ?XP exampleOrder "[]" "[exampleGetter]" ?good]
  note on_XG = C4_no_partial_result [of ?XG exampleOrder "[]" "[exampleGetter]" ?good]
  have e: "snd (createAPIResourceSchemas exampleExternals exampleOrder [] [exampleGetter] ?fails) =
           Some (Aggregate [Failure ''unsupported field'', Failure ''ambiguous reference''])"
    by (simp add: example_simps)
  have n: "fst (createAPIResourceSchemas exampleExternals exampleOrder [] [exampleGetter] ?fails) = []"
    using on_fails [THEN conjunct1] e by blast
  have b: "BuildOpenAPIDefinitionsForResources exampleExternals
        (DefaultOpenAPIConfig exampleExternals (getDefinitions exampleOrder [exampleGetter])
           (NewDefinitionNamer exampleExternals []))
        (map (\<lambda>def. GetCanonicalTypeName exampleExternals (Instance def)) ?unknown) =
        Inl (Failure ''unknown type'')"
    by (simp add: example_simps)
  have u: "createAPIResourceSchemas exampleExternals exampleOrder [] [exampleGetter] ?unknown =
           ([], Some (Failure ''unknown type''))"
    using on_unknown [THEN conjunct2, THEN conjunct2, THEN conjunct2, THEN conjunct2, THEN conjunct1] b
    by blast
  have pb: "BuildOpenAPIDefinitionsForResources ?XP
        (DefaultOpenAPIConfig ?XP (getDefinitions exampleOrder [exampleGetter]) (NewDefinitionNamer ?XP []))
        (map (\<lambda>def. GetCanonicalTypeName ?XP (Instance def)) ?good) = Inr ?doc"
    by (simp add: example_simps)
  have pf: "ToProtoModels ?XP (?doc\<lparr>Info_Version := ''1.0''\<rparr>) = Inl (Failure ''unresolvable component'')"
    by (simp add: exampleExternals_def)
  have p: "createAPIResourceSchemas ?XP exampleOrder [] [exampleGetter] ?good =
           ([], Some (Failure ''unresolvable component''))"
    using on_XP [THEN conjunct2, THEN conjunct2, THEN conjunct2, THEN conjunct2, THEN conjunct2,
        THEN conjunct1] pb pf
    by blast
  have gb: "BuildOpenAPIDefinitionsForResources ?XG
        (DefaultOpenAPIConfig ?XG (getDefinitions exampleOrder [exampleGetter]) (NewDefinitionNamer ?XG []))
        (map (\<lambda>def. GetCanonicalTypeName ?XG (Instance def)) ?good) = Inr ?doc"
    by (simp add: example_simps)
  have gp: "ToProtoModels ?XG (?doc\<lparr>Info_Version := ''1.0''\<rparr>) = Inr [''Widget'']"
    by (simp add: exampleExternals_def)
  have gf: "GetModelsByGKV ?XG [''Widget''] = Inl (Failure ''duplicate kind'')"
    by (simp add: exampleExternals_def)
  have g: "createAPIResourceSchemas ?XG exampleOrder [] [exampleGetter] ?good =
           ([], Some (Failure ''duplicate kind''))"
    using on_XG [THEN conjunct2, THEN conjunct2, THEN conjunct2, THEN conjunct2, THEN conjunct2,
        THEN conjunct2, THEN conjunct1] gb gp gf
    by blast
  have ok: "fst (createAPIResourceSchemas exampleExternals exampleOrder [] [exampleGetter] ?good) \<noteq> []"
    by (simp add: example_simps)
  have s: "snd (createAPIResourceSchemas exampleExternals exampleOrder [] [exampleGetter] ?good) = None"
    using on_good [THEN conjunct2, THEN conjunct1] ok by blast
  from pf have pf': "ToProtoModels ?XP \<lparr>Info_Version = ''1.0'', Document = [''Widget'']\<rparr> =
      Inl (Failure ''unresolvable component'')"
    by simp
  from e n b u pf' p gf g ok s show ?thesis by (intro conjI)
qed

text \<open>
  C5. On a successful run there is one schema for each descriptor, and the versions of
  every schema are exactly one entry, named \<open>v1\<close>, served and stored.
\<close>

theorem C5_single_v1_version:
  assumes "createAPIResourceSchemas X rangeOrder schemes getters defs = (apis, None)"
  shows "length apis = length defs \<and>
         list_all (\<lambda>spec. \<exists>v. Versions (Spec spec) = [v] \<and> Name v = ''v1'' \<and> Served v \<and> Storage v) apis"
proof -
  from assms obtain idx where m: "map (assembleSchema X idx) defs = map Inr apis"
    by (auto simp: create_ok_iff)
  then have len: "length apis = length defs" by (metis length_map)
  have "\<exists>v. Versions (Spec s) = [v] \<and> Name v = ''v1'' \<and> Served v \<and> Storage v" if "s \<in> set apis" for s
  proof -
    from that have "Inr s \<in> set (map (assembleSchema X idx) defs)" by (simp add: m)
    then obtain d where "assembleSchema X idx d = Inr s" by auto
    from assembleSchema_version [OF this] show ?thesis by blast
  qed
  with len show ?thesis by (simp add: list_all_iff)
qed

theorem C5_single_v1_version_witness:
  "snd (createAPIResourceSchemas exampleExternals exampleOrder [] [exampleGetter]
          [exampleAPI ''widgets'' [] ''Widget'' True, exampleAPI ''nans'' ''example.io'' ''Widget'' False]) = None
   \<and> length (fst (createAPIResourceSchemas exampleExternals exampleOrder [] [exampleGetter]
          [exampleAPI ''widgets'' [] ''Widget'' True, exampleAPI ''nans'' ''example.io'' ''Widget'' False])) = 2
   \<and> list_all (\<lambda>spec. \<exists>v. Versions (Spec spec) = [v] \<and> Name v = ''v1'' \<and> Served v \<and> Storage v)
        (fst (createAPIResourceSchemas exampleExternals exampleOrder [] [exampleGetter]
          [exampleAPI ''widgets'' [] ''Widget'' True, exampleAPI ''nans'' ''example.io'' ''Widget'' False]))"
proof -
  let ?defs = "[exampleAPI ''widgets'' [] ''Widget'' True, exampleAPI ''nans'' ''example.io'' ''Widget'' False]"
  obtain apis where run:
    "createAPIResourceSchemas exampleExternals exampleOrder [] [exampleGetter] ?defs = (apis, None)"
    by (simp add: example_simps)
  from C5_single_v1_version [OF run] run show ?thesis by simp
qed

text \<open>
  C6. On a successful run, the single version entry of the schema of each descriptor
  has a status sub-resource (a non-nil pointer) if and only if the descriptor's
  \<open>HasStatus\<close> is true.
\<close>

theorem C6_status_iff_hasStatus:
  assumes "createAPIResourceSchemas X rangeOrder schemes getters defs = (apis, None)"
  shows "list_all2 (\<lambda>def spec. \<exists>v. Versions (Spec spec) = [v] \<and>
            (Status (Subresources v) \<noteq> None \<longleftrightarrow> HasStatus def)) defs apis"
proof -
  from assms obtain idx where m: "map (assembleSchema X idx) defs = map Inr apis"
    by (auto simp: create_ok_iff)
  then show ?thesis
  proof (induction defs arbitrary: apis)
    case Nil
    then show ?case by simp
  next
    case (Cons d ds)
    then obtain s ss where apis: "apis = s # ss" and s: "assembleSchema X idx d = Inr s"
        and ss: "map (assembleSchema X idx) ds = map Inr ss"
      by (auto simp: map_eq_Cons_conv)
    from assembleSchema_version [OF s] Cons.IH [OF ss] apis show ?case by auto
  qed
qed

theorem C6_status_iff_hasStatus_witness:
  "snd (createAPIResourceSchemas exampleExternals exampleOrder [] [exampleGetter]
          [exampleAPI ''widgets'' [] ''Widget'' True, exampleAPI ''widgets'' ''example.io'' ''Widget'' False]) = None
   \<and> list_all2 (\<lambda>def spec. \<exists>v. Versions (Spec spec) = [v] \<and>
            (Status (Subresources v) \<noteq> None \<longleftrightarrow> HasStatus def))
        [exampleAPI ''widgets'' [] ''Widget'' True, exampleAPI ''widgets'' ''example.io'' ''Widget'' False]
        (fst (createAPIResourceSchemas exampleExternals exampleOrder [] [exampleGetter]
          [exampleAPI ''widgets'' [] ''Widget'' True, exampleAPI ''widgets'' ''example.io'' ''Widget'' False]))
   \<and> HasStatus (exampleAPI ''widgets'' [] ''Widget'' True)
   \<and> \<not> HasStatus (exampleAPI ''widgets'' ''example.io'' ''Widget'' False)"
proof -
  let ?defs = "[exampleAPI ''widgets'' [] ''Widget'' True, exampleAPI ''widgets'' ''example.io'' ''Widget'' False]"
  obtain apis where run:
    "createAPIResourceSchemas exampleExternals exampleOrder [] [exampleGetter] ?defs = (apis, None)"
    by (simp add: example_simps)
  have "HasStatus (exampleAPI ''widgets'' [] ''Widget'' True)"
    and "\<not> HasStatus (exampleAPI ''widgets'' ''example.io'' ''Widget'' False)"
    by (simp_all add: exampleAPI_def)
  with C6_status_iff_hasStatus [OF run] run show ?thesis by simp
qed

text \<open>
  C7. Whatever the order in which the inner loop visits each provider's map, the
  aggregated table maps a name to the entry of the latest provider, in registration
  order, that defines it (and to nothing when no provider does), so a name defined once
  keeps its entry and a collision is settled silently for the later provider; the names
  of the table are the names of all providers together. The result is a table: there is
  no error to raise.
\<close>

theorem C7_latest_provider_wins:
  assumes "\<forall>g\<in>set getters. rangesOver rangeOrder (g ref)"
  shows "getDefinitions rangeOrder getters ref name =
           (case find (\<lambda>g. g ref name \<noteq> None) (rev getters) of
              None \<Rightarrow> None
            | Some g \<Rightarrow> g ref name)
         \<and> dom (getDefinitions rangeOrder getters ref) = (\<Union>g\<in>set getters. dom (g ref))"
proof -
  from assms have ord: "\<forall>g\<in>set getters. set (rangeOrder (g ref)) = dom (g ref)"
    by (simp add: rangesOver_def)
  have eq: "getDefinitions rangeOrder getters ref = fold (\<lambda>g result. result ++ g ref) getters Map.empty"
    by (rule getDefinitions_map_add [OF ord])
  have "dom (fold (\<lambda>g result. result ++ g ref) getters r) = dom r \<union> (\<Union>g\<in>set getters. dom (g ref))" for r
    by (induction getters arbitrary: r) auto
  with eq show ?thesis by (simp add: fold_map_add_apply)
qed

theorem C7_latest_provider_wins_witness:
  "rangesOver exampleOrder (providerA ()) \<and> rangesOver exampleOrder (providerB ()) \<and>
   providerA () ''Widget'' = Some ''widget of A'' \<and>
   getDefinitions exampleOrder [providerA, providerB] () ''Widget'' = Some ''widget of B'' \<and>
   getDefinitions exampleOrder [providerA, providerB] () ''Gadget'' = Some ''gadget of A'' \<and>
   dom (getDefinitions exampleOrder [providerA, providerB] ()) = {''Widget'', ''Gadget''}"
proof -
  have a: "rangesOver exampleOrder (providerA ())" and b: "rangesOver exampleOrder (providerB ())"
    by (auto simp: rangesOver_def exampleOrder_def providerA_def providerB_def split: if_splits)
  then have h: "\<forall>g\<in>set [providerA, providerB]. rangesOver exampleOrder (g ())" by simp
  have w: "getDefinitions exampleOrder [providerA, providerB] () ''Widget'' = Some ''widget of B''"
    using C7_latest_provider_wins [OF h, of "''Widget''"] by (simp add: providerA_def providerB_def)
  have g: "getDefinitions exampleOrder [providerA, providerB] () ''Gadget'' = Some ''gadget of A''"
    using C7_latest_provider_wins [OF h, of "''Gadget''"] by (simp add: providerA_def providerB_def)
  have d: "dom (getDefinitions exampleOrder [providerA, providerB] ()) = {''Widget'', ''Gadget''}"
    using C7_latest_provider_wins [OF h, of "''Gadget''"] by (auto simp add: providerA_def providerB_def)
  from a b w g d show ?thesis by (simp add: providerA_def)
qed

text \<open>
  C8. Two runs on the same schemes, providers and descriptors, with the same
  collaborators, return the same pair, schemas in the same order, even when the two
  runs visit the providers' maps in different orders: the one thing the language leaves
  open between two runs of this code.
\<close>

theorem C8_deterministic:
  assumes "\<forall>g\<in>set getters. \<forall>ref. rangesOver order1 (g ref)"
      and "\<forall>g\<in>set getters. \<forall>ref. rangesOver order2 (g ref)"
  shows "createAPIResourceSchemas X order1 schemes getters defs =
         createAPIResourceSchemas X order2 schemes getters defs"
proof -
  have "getDefinitions order1 getters ref = getDefinitions order2 getters ref" for ref
    using assms by (simp add: getDefinitions_map_add rangesOver_def)
  then have "getDefinitions order1 getters = getDefinitions order2 getters" by (rule ext)
  then show ?thesis by (simp add: createAPIResourceSchemas_def buildModelsByGKV_def)
qed

theorem C8_deterministic_witness:
  "rangesOver exampleOrder (exampleGetter ()) \<and> rangesOver reversedOrder (exampleGetter ())
   \<and> exampleOrder (exampleGetter ()) = [''Widget'', ''Bad'', ''NaN'']
   \<and> reversedOrder (exampleGetter ()) = [''NaN'', ''Bad'', ''Widget'']
   \<and> createAPIResourceSchemas exampleExternals exampleOrder [] [exampleGetter]
        [exampleAPI ''widgets'' [] ''Widget'' True, exampleAPI ''nans'' [] ''NaN'' False] =
      createAPIResourceSchemas exampleExternals reversedOrder [] [exampleGetter]
        [exampleAPI ''widgets'' [] ''Widget'' True, exampleAPI ''nans'' [] ''NaN'' False]"
proof -
  have o1: "exampleOrder (exampleGetter ()) = [''Widget'', ''Bad'', ''NaN'']"
    and o2: "reversedOrder (exampleGetter ()) = [''NaN'', ''Bad'', ''Widget'']"
    by (simp_all add: exampleOrder_def reversedOrder_def exampleGetter_def)
  have d: "dom (exampleGetter ()) = {''Widget'', ''Bad'', ''NaN''}"
    by (auto simp: exampleGetter_def)
  have r1: "rangesOver exampleOrder (exampleGetter ())" and r2: "rangesOver reversedOrder (exampleGetter ())"
    unfolding rangesOver_def o1 o2 d by auto
  then have h1: "\<forall>g\<in>set [exampleGetter]. \<forall>ref. rangesOver exampleOrder (g ref)"
    and h2: "\<forall>g\<in>set [exampleGetter]. \<forall>ref. rangesOver reversedOrder (g ref)"
    by simp_all
  from C8_deterministic [OF h1 h2] r1 r2 o1 o2 show ?thesis by blast
qed

text \<open>
  C9. On a successful run the output has as many schemas as there are descriptors, the
  schema at each position is the one assembled from the descriptor at that position, and
  a descriptor that occurs at two positions yields equal schemas at both: nothing is
  removed or reordered.
\<close>

theorem C9_one_schema_per_descriptor_in_order:
  assumes "createAPIResourceSchemas X rangeOrder schemes getters defs = (apis, None)"
  shows "length apis = length defs
       \<and> (\<exists>modelsByGKV. buildModelsByGKV X rangeOrder schemes getters defs = Inr modelsByGKV \<and>
            (\<forall>i<length defs. assembleSchema X modelsByGKV (defs ! i) = Inr (apis ! i)))
       \<and> (\<forall>i<length defs. \<forall>j<length defs. defs ! i = defs ! j \<longrightarrow> apis ! i = apis ! j)"
proof -
  from assms obtain idx where idx: "buildModelsByGKV X rangeOrder schemes getters defs = Inr idx"
    and m: "map (assembleSchema X idx) defs = map Inr apis"
    by (auto simp: create_ok_iff)
  from m have len: "length apis = length defs" by (metis length_map)
  have nth: "assembleSchema X idx (defs ! i) = Inr (apis ! i)" if "i < length defs" for i
    using m that len by (metis nth_map)
  have "apis ! i = apis ! j" if "i < length defs" "j < length defs" "defs ! i = defs ! j" for i j
    using nth [OF that(1)] nth [OF that(2)] that(3) by simp
  with len idx nth show ?thesis by blast
qed

theorem C9_one_schema_per_descriptor_in_order_witness:
  "snd (createAPIResourceSchemas exampleExternals exampleOrder [] [exampleGetter]
          [exampleAPI ''widgets'' [] ''Widget'' True, exampleAPI ''widgets'' [] ''Widget'' True]) = None
   \<and> length (fst (createAPIResourceSchemas exampleExternals exampleOrder [] [exampleGetter]
          [exampleAPI ''widgets'' [] ''Widget'' True, exampleAPI ''widgets'' [] ''Widget'' True])) = 2
   \<and> fst (createAPIResourceSchemas exampleExternals exampleOrder [] [exampleGetter]
          [exampleAPI ''widgets'' [] ''Widget'' True, exampleAPI ''widgets'' [] ''Widget'' True]) ! 0 =
     fst (createAPIResourceSchemas exampleExternals exampleOrder [] [exampleGetter]
          [exampleAPI ''widgets'' [] ''Widget'' True, exampleAPI ''widgets'' [] ''Widget'' True]) ! 1"
proof -
  let ?defs = "[exampleAPI ''widgets'' [] ''Widget'' True, exampleAPI ''widgets'' [] ''Widget'' True]"
  obtain apis where run:
    "createAPIResourceSchemas exampleExternals exampleOrder [] [exampleGetter] ?defs = (apis, None)"
    by (simp add: example_simps)
  note c9 = C9_one_schema_per_descriptor_in_order [OF run]
  from c9 have len: "length apis = length ?defs" by (rule conjunct1)
  from c9 have dup: "\<forall>i<length ?defs. \<forall>j<length ?defs. ?defs ! i = ?defs ! j \<longrightarrow> apis ! i = apis ! j"
    by (rule conjunct2 [THEN conjunct2])
  have "(0::nat) < length ?defs" and "(1::nat) < length ?defs" and "?defs ! 0 = ?defs ! 1"
    by simp_all
  with dup have "apis ! 0 = apis ! 1" by blast
  moreover from len have "length apis = 2" by simp
  ultimately have "length apis = 2" and "apis ! 0 = apis ! 1" by simp_all
  with run show ?thesis by simp
qed

text \<open>
  C10. When the loop reaches a descriptor whose conversion reports no error and
  \<open>SetSchema\<close> returns an error for its fragment, the run returns that error and no
  schemas, whatever descriptors follow.
\<close>

theorem C10_serialisation_error_aborts:
  assumes "buildModelsByGKV X rangeOrder schemes getters (pre @ d # post) = Inr modelsByGKV"
      and "assembleLoop X modelsByGKV pre [] = (apis, None)"
      and "Convert X (modelsByGKV (WithKind (GroupVersion d) (Kind (Names d)))) = ([], schemaProps)"
      and "SetSchema (Marshal X) v schemaProps = Inl err"
  shows "createAPIResourceSchemas X rangeOrder schemes getters (pre @ d # post) = ([], Some err)"
proof -
  from assms(4) have "Marshal X schemaProps = Inl err"
    by (simp add: SetSchema_def split: sum.splits)
  with assms(3) have "assembleSchema X modelsByGKV d = Inl err"
    by (rule assembleSchema_marshal_error)
  with assms(2) have "assembleLoop X modelsByGKV (pre @ d # post) [] = ([], Some err)"
    by (rule assembleLoop_fail_at)
  with assms(1) show ?thesis by (simp add: createAPIResourceSchemas_def)
qed

theorem C10_serialisation_error_aborts_witness:
  "buildModelsByGKV exampleExternals exampleOrder [] [exampleGetter]
      [exampleAPI ''widgets'' [] ''Widget'' True, exampleAPI ''nans'' [] ''NaN'' False,
       exampleAPI ''bads'' [] ''Bad'' False] = Inr (exampleIndex [''Widget'', ''NaN'', ''Bad''])
   \<and> snd (assembleLoop exampleExternals (exampleIndex [''Widget'', ''NaN'', ''Bad''])
        [exampleAPI ''widgets'' [] ''Widget'' True] []) = None
   \<and> Convert exampleExternals (exampleIndex [''Widget'', ''NaN'', ''Bad'']
        (WithKind (GroupVersion (exampleAPI ''nans'' [] ''NaN'' False))
           (Kind (Names (exampleAPI ''nans'' [] ''NaN'' False))))) = ([], ''{NaN}'')
   \<and> SetSchema (Marshal exampleExternals)
        \<lparr>Name = ''v1'', Served = True, Storage = True, Schema = \<lparr>Raw = []\<rparr>,
         Subresources = \<lparr>Status = None\<rparr>\<rparr> ''{NaN}'' = Inl (Failure ''unsupported value'')
   \<and> createAPIResourceSchemas exampleExternals exampleOrder [] [exampleGetter]
      [exampleAPI ''widgets'' [] ''Widget'' True, exampleAPI ''nans'' [] ''NaN'' False,
       exampleAPI ''bads'' [] ''Bad'' False] = ([], Some (Failure ''unsupported value''))"
proof -
  let ?w = "exampleAPI ''widgets'' [] ''Widget'' True"
  let ?n = "exampleAPI ''nans'' [] ''NaN'' False"
  let ?b = "exampleAPI ''bads'' [] ''Bad'' False"
  let ?idx = "exampleIndex [''Widget'', ''NaN'', ''Bad'']"
  let ?v = "\<lparr>Name = ''v1'', Served = True, Storage = True, Schema = \<lparr>Raw = []\<rparr>,
         Subresources = \<lparr>Status = None\<rparr>\<rparr>"
  have h1: "buildModelsByGKV exampleExternals exampleOrder [] [exampleGetter] ([?w] @ ?n # [?b]) = Inr ?idx"
    by (simp add: example_simps)
  obtain apis where h2: "assembleLoop exampleExternals ?idx [?w] [] = (apis, None)"
    by (simp add: example_simps)
  have h3: "Convert exampleExternals (?idx (WithKind (GroupVersion ?n) (Kind (Names ?n)))) = ([], ''{NaN}'')"
    by (simp add: example_simps)
  have h4: "SetSchema (Marshal exampleExternals) ?v ''{NaN}'' = Inl (Failure ''unsupported value'')"
    by (simp add: SetSchema_def exampleExternals_def)
  from C10_serialisation_error_aborts [OF h1 h2 h3 h4] h1 h2 h3 h4 show ?thesis by simp
qed

end
